theory Spec2Isabelle
  imports Complex_Main
begin

section \<open>The C type \<open>gdouble\<close>\<close>

text \<open>
  The session state of \<^verbatim>\<open>calibrate_hcp.c\<close> holds \<^verbatim>\<open>gdouble\<close> values that the program
  itself can drive to not-a-number or to an infinity (the Lattice Solver divides and takes
  square roots without a guard, the entry handlers store whatever \<^verbatim>\<open>g_strtod\<close> parsed).
  Such a value is a \<open>double\<close>: a number, the negative zero, one of the two infinities, or
  not-a-number. The operations follow the special-value rules of IEEE 754 arithmetic; on
  numbers they are the exact operations of the reals, so rounding to 53 bits, overflow and
  underflow are outside this model.
\<close>

datatype double = Num real | NegZero | PosInf | NegInf | NaN

fun isnan :: "double \<Rightarrow> bool" where
  "isnan NaN = True"
| "isnan _ = False"

fun is_inf :: "double \<Rightarrow> bool" where
  "is_inf PosInf = True"
| "is_inf NegInf = True"
| "is_inf _ = False"

fun is_zero :: "double \<Rightarrow> bool" where
  "is_zero (Num r) = (r = 0)"
| "is_zero NegZero = True"
| "is_zero _ = False"

text \<open>The sign bit: set for negative numbers, the negative zero and the negative infinity.\<close>

fun sign_bit :: "double \<Rightarrow> bool" where
  "sign_bit (Num r) = (r < 0)"
| "sign_bit NegZero = True"
| "sign_bit NegInf = True"
| "sign_bit _ = False"

text \<open>The real number a finite double stands for (both zeros stand for 0).\<close>

fun num_val :: "double \<Rightarrow> real" where
  "num_val (Num r) = r"
| "num_val _ = 0"

definition mk_zero :: "bool \<Rightarrow> double" where
  "mk_zero s = (if s then NegZero else Num 0)"

definition mk_inf :: "bool \<Rightarrow> double" where
  "mk_inf s = (if s then NegInf else PosInf)"

text \<open>A finite result \<open>r\<close> whose sign, should it be zero, is \<open>s\<close>.\<close>

definition mk_num :: "bool \<Rightarrow> real \<Rightarrow> double" where
  "mk_num s r = (if r = 0 then mk_zero s else Num r)"

text \<open>\<^verbatim>\<open>x * y\<close>\<close>

definition dmul :: "double \<Rightarrow> double \<Rightarrow> double" where
  "dmul x y =
     (if isnan x \<or> isnan y then NaN
      else if (is_zero x \<and> is_inf y) \<or> (is_inf x \<and> is_zero y) then NaN
      else if is_inf x \<or> is_inf y then mk_inf (sign_bit x \<noteq> sign_bit y)
      else mk_num (sign_bit x \<noteq> sign_bit y) (num_val x * num_val y))"

text \<open>\<^verbatim>\<open>x / y\<close>\<close>

definition ddiv :: "double \<Rightarrow> double \<Rightarrow> double" where
  "ddiv x y =
     (if isnan x \<or> isnan y then NaN
      else if (is_zero x \<and> is_zero y) \<or> (is_inf x \<and> is_inf y) then NaN
      else if is_inf x \<or> is_zero y then mk_inf (sign_bit x \<noteq> sign_bit y)
      else if is_inf y then mk_zero (sign_bit x \<noteq> sign_bit y)
      else mk_num (sign_bit x \<noteq> sign_bit y) (num_val x / num_val y))"

text \<open>
  \<^verbatim>\<open>x - y\<close>. A difference of numbers that is exactly zero is the positive zero, except
  \<open>(-0) - (+0)\<close>, which is the negative zero.
\<close>

definition dsub :: "double \<Rightarrow> double \<Rightarrow> double" where
  "dsub x y =
     (if isnan x \<or> isnan y then NaN
      else if is_inf x then (if is_inf y \<and> sign_bit x = sign_bit y then NaN else x)
      else if is_inf y then mk_inf (\<not> sign_bit y)
      else if num_val x - num_val y = 0 then mk_zero (x = NegZero \<and> y = Num 0)
      else Num (num_val x - num_val y))"

text \<open>\<^verbatim>\<open>sqrt(x)\<close> of \<^verbatim>\<open>math.h\<close>\<close>

fun dsqrt :: "double \<Rightarrow> double" where
  "dsqrt (Num r) = (if r < 0 then NaN else Num (sqrt r))"
| "dsqrt NegZero = NegZero"
| "dsqrt PosInf = PosInf"
| "dsqrt NegInf = NaN"
| "dsqrt NaN = NaN"

text \<open>
  The comparisons of C: every comparison with a not-a-number is false, except \<^verbatim>\<open>!=\<close>,
  which is then true; the two zeros are equal.
\<close>

definition deq :: "double \<Rightarrow> double \<Rightarrow> bool" where
  "deq x y = (\<not> isnan x \<and> \<not> isnan y \<and> (x = y \<or> (is_zero x \<and> is_zero y)))"

definition dne :: "double \<Rightarrow> double \<Rightarrow> bool" where
  "dne x y = (\<not> deq x y)"

fun dlt :: "double \<Rightarrow> double \<Rightarrow> bool" where
  "dlt NaN _ = False"
| "dlt _ NaN = False"
| "dlt PosInf _ = False"
| "dlt _ PosInf = True"
| "dlt _ NegInf = False"
| "dlt NegInf _ = True"
| "dlt x y = (num_val x < num_val y)"

definition dgt :: "double \<Rightarrow> double \<Rightarrow> bool" where
  "dgt x y = dlt y x"

definition dle :: "double \<Rightarrow> double \<Rightarrow> bool" where
  "dle x y = (dlt x y \<or> deq x y)"

definition dge :: "double \<Rightarrow> double \<Rightarrow> bool" where
  "dge x y = dle y x"

section \<open>The session state\<close>

text \<open>\<^verbatim>\<open>typedef enum { ZOOM_1 = 1, ZOOM_2 = 2 } ZoomMode\<close>\<close>

datatype ZoomMode = ZOOM_1 | ZOOM_2

fun zoom_int :: "ZoomMode \<Rightarrow> int" where
  "zoom_int ZOOM_1 = 1"
| "zoom_int ZOOM_2 = 2"

text \<open>\<^verbatim>\<open>ThresholdArgs\<close>\<close>

record ThresholdArgs =
  lower :: double
  upper :: double
  lattice :: double
  Xscale :: double
  Yscale :: double
  Xwarning :: bool
  Ywarning :: bool
  zoom_mode :: ZoomMode

text \<open>
  \<^verbatim>\<open>ThresholdRanges\<close>: the smallest and the largest sample of the spectrum, filled by
  \<^verbatim>\<open>gwy_data_field_get_min_max\<close> when the dialogue is built.
\<close>

record ThresholdRanges =
  range_min :: real
  range_max :: real

text \<open>
  \<^verbatim>\<open>GwyDataField\<close>, the image of the host library: resolution, physical extents and offsets,
  and the samples in row-major order (sample \<open>(col, row)\<close> at index \<open>col + xres * row\<close>).
  Samples, extents and offsets of an image are numbers, so they are reals here.
\<close>

record GwyDataField =
  xres :: int
  yres :: int
  xreal :: real
  yreal :: real
  xoff :: real
  yoff :: real
  data :: "real list"

text \<open>
  \<^verbatim>\<open>ThresholdControls\<close>, without the widgets. \<open>selection\<close> is the \<^verbatim>\<open>GwySelection\<close> of the
  point layer (at most two points, in the coordinates of the displayed image); \<open>p\<close> is
  the array \<^verbatim>\<open>gdouble p[2][3]\<close> of refined peaks \<open>(x, y, z)\<close>; \<open>rpx\<close> is \<^verbatim>\<open>tool->rpx\<close>, the
  peak search radius; \<open>magnitude\<close> is \<^verbatim>\<open>original_XY_Format->magnitude\<close>.
\<close>

record ThresholdControls =
  args :: ThresholdArgs
  ranges :: ThresholdRanges
  magnitude :: double
  ofield :: GwyDataField
  offt :: GwyDataField
  disp_data :: GwyDataField
  dfield :: GwyDataField
  selection :: "(real \<times> real) list"
  p :: "nat \<Rightarrow> real \<times> real \<times> real"
  rpx :: int

section \<open>The Lattice Solver\<close>

text \<open>
  \<^verbatim>\<open>calibration_get_factors\<close>. The peak coordinates are read from \<open>p\<close>; \<^verbatim>\<open>check_warnings\<close>
  only repaints three labels from the two flags and is left out.
\<close>

definition calibration_get_factors :: "ThresholdControls \<Rightarrow> ThresholdControls" where
  "calibration_get_factors controls =
     (let x1 = Num (fst (p controls 0));
          y1 = Num (fst (snd (p controls 0)));
          x2 = Num (fst (p controls 1));
          y2 = Num (fst (snd (p controls 1)));
          R = ddiv (Num 2) (dmul (Num (sqrt 3)) (lattice (args controls)));
          x1_2 = dmul x1 x1;
          y1_2 = dmul y1 y1;
          x2_2 = dmul x2 x2;
          y2_2 = dmul y2 y2;
          ycorr = dmul R (dsqrt (ddiv (dsub x1_2 x2_2)
                                      (dsub (dmul x1_2 y2_2) (dmul x2_2 y1_2))));
          xcorr = dsqrt (ddiv (dsub (dmul R R) (dmul (dmul ycorr ycorr) y1_2)) x1_2);
          xs = ddiv (Num 1) xcorr;
          ys = ddiv (Num 1) ycorr;
          xw0 = False;
          yw0 = False;
          xw1 = (if deq x1_2 x2_2 then True else xw0);
          yw1 = (if deq y1_2 y2_2 then True else yw0);
          xw2 = (if deq x1_2 (Num 0) then True else xw1);
          xw3 = (if dne xs xs then True else xw2);
          yw3 = (if dne ys ys then True else yw1);
          both = deq (dmul x1_2 y2_2) (dmul x2_2 y1_2);
          xw4 = (if both then True else xw3);
          yw4 = (if both then True else yw3)
      in controls\<lparr>args := (args controls)
           \<lparr>Xscale := xs, Yscale := ys, Xwarning := xw4, Ywarning := yw4\<rparr>\<rparr>)"

text \<open>
  The solver in the words of the specification: \<open>R = 2 / (\<surd>3 \<cdot> a)\<close>,
  \<open>ycorr = R \<cdot> sqrt((x1\<^sup>2 - x2\<^sup>2) / (x1\<^sup>2 \<cdot> y2\<^sup>2 - x2\<^sup>2 \<cdot> y1\<^sup>2))\<close>,
  \<open>xcorr = sqrt((R\<^sup>2 - ycorr\<^sup>2 \<cdot> y1\<^sup>2) / x1\<^sup>2)\<close>, and the pair \<open>(1 / xcorr, 1 / ycorr)\<close>.
\<close>

definition spec_R :: "double \<Rightarrow> double" where
  "spec_R a = ddiv (Num 2) (dmul (Num (sqrt 3)) a)"

definition spec_ycorr :: "double \<Rightarrow> double \<Rightarrow> double \<Rightarrow> double \<Rightarrow> double \<Rightarrow> double" where
  "spec_ycorr a x1 y1 x2 y2 =
     dmul (spec_R a)
       (dsqrt (ddiv (dsub (dmul x1 x1) (dmul x2 x2))
                    (dsub (dmul (dmul x1 x1) (dmul y2 y2)) (dmul (dmul x2 x2) (dmul y1 y1)))))"

definition spec_xcorr :: "double \<Rightarrow> double \<Rightarrow> double \<Rightarrow> double \<Rightarrow> double \<Rightarrow> double" where
  "spec_xcorr a x1 y1 x2 y2 =
     dsqrt (ddiv (dsub (dmul (spec_R a) (spec_R a))
                       (dmul (dmul (spec_ycorr a x1 y1 x2 y2) (spec_ycorr a x1 y1 x2 y2))
                             (dmul y1 y1)))
                 (dmul x1 x1))"

section \<open>The host library\<close>

text \<open>
  The selection, the image accessors and the rounding macro belong to the host library
  (Gwyddion), not to this program. They are modelled by their documented behaviour, as far
  as the program uses them. The resolutions and pixel indices of an image are \<^verbatim>\<open>gint\<close>
  values and are \<open>int\<close> here. Where the program rounds a computed \<^verbatim>\<open>gdouble\<close> to a new
  resolution (\<^verbatim>\<open>GWY_ROUND\<close>), the limits of the 32 bits of \<^verbatim>\<open>gint\<close> are part of the model.
\<close>

text \<open>
  \<^verbatim>\<open>gwy_selection_is_full\<close>: the dialogue sets the maximum number of objects to 2.
\<close>

definition gwy_selection_is_full :: "(real \<times> real) list \<Rightarrow> bool" where
  "gwy_selection_is_full sel = (length sel = 2)"


text \<open>
  \<^verbatim>\<open>gwy_selection_set_object\<close>. The program only calls it with the index of an object
  that \<^verbatim>\<open>gwy_selection_get_object\<close> has just returned, so it replaces that object.
\<close>

definition gwy_selection_set_object ::
  "(real \<times> real) list \<Rightarrow> nat \<Rightarrow> real \<times> real \<Rightarrow> (real \<times> real) list" where
  "gwy_selection_set_object sel i pt = sel[i := pt]"

text \<open>
  The coordinate conversions of \<^verbatim>\<open>GwyDataField\<close>; none of them rounds to a pixel:
  \<^verbatim>\<open>rtoj(x) = x * xres / xreal\<close>, \<^verbatim>\<open>jtor(col) = col * xreal / xres\<close>, and the same for rows
  with \<^verbatim>\<open>yres\<close> and \<^verbatim>\<open>yreal\<close>. They are the operations of the reals here. The program
  computes them in \<^verbatim>\<open>gdouble\<close>, where every operation rounds to 53 bits: there
  \<^verbatim>\<open>rtoj(jtor(col))\<close> can fall just below \<open>col\<close>, and \<^verbatim>\<open>(x + xoff) - xoff\<close> need not be \<open>x\<close>. No
  property below rests on such an identity of the reals.
\<close>

definition gwy_data_field_rtoj :: "GwyDataField \<Rightarrow> real \<Rightarrow> real" where
  "gwy_data_field_rtoj d x = x * real_of_int (xres d) / xreal d"

definition gwy_data_field_rtoi :: "GwyDataField \<Rightarrow> real \<Rightarrow> real" where
  "gwy_data_field_rtoi d y = y * real_of_int (yres d) / yreal d"

definition gwy_data_field_jtor :: "GwyDataField \<Rightarrow> real \<Rightarrow> real" where
  "gwy_data_field_jtor d col = col * xreal d / real_of_int (xres d)"

definition gwy_data_field_itor :: "GwyDataField \<Rightarrow> real \<Rightarrow> real" where
  "gwy_data_field_itor d row = row * yreal d / real_of_int (yres d)"

text \<open>
  \<^verbatim>\<open>gwy_data_field_get_val(field, col, row)\<close> reads sample \<open>col + xres * row\<close>; a pixel
  outside the field violates its precondition, which is \<open>None\<close> here.
\<close>

definition gwy_data_field_inside :: "GwyDataField \<Rightarrow> int \<Rightarrow> int \<Rightarrow> bool" where
  "gwy_data_field_inside d col row = (0 \<le> col \<and> col < xres d \<and> 0 \<le> row \<and> row < yres d)"

definition gwy_data_field_get_val :: "GwyDataField \<Rightarrow> int \<Rightarrow> int \<Rightarrow> real option" where
  "gwy_data_field_get_val d col row =
     (if gwy_data_field_inside d col row then Some (data d ! nat (col + xres d * row))
      else None)"

text \<open>
  The conversion of a \<^verbatim>\<open>gdouble\<close> to \<^verbatim>\<open>gint\<close> in an initialisation such as
  \<^verbatim>\<open>gint col = gwy_data_field_rtoj(dfield, point[0])\<close>: C discards the fractional part;
  it does not round to the nearest pixel. (A coordinate beyond the 32 bits of \<^verbatim>\<open>gint\<close>,
  where the conversion is undefined, is outside every image: the read of the sample that
  follows the conversion is \<open>None\<close> there.)
\<close>

definition c_trunc :: "real \<Rightarrow> int" where
  "c_trunc x = (if 0 \<le> x then \<lfloor>x\<rfloor> else \<lceil>x\<rceil>)"

text \<open>
  The conversion \<^verbatim>\<open>(gint)\<close> of a whole \<^verbatim>\<open>gdouble\<close>: \<^verbatim>\<open>gint\<close> has 32 bits, and the
  conversion of a value outside its range is undefined in C: \<open>None\<close>.
\<close>

definition gint_of :: "int \<Rightarrow> int option" where
  "gint_of n = (if - (2 ^ 31) \<le> n \<and> n < 2 ^ 31 then Some n else None)"

text \<open>
  \<^verbatim>\<open>GWY_ROUND(x)\<close> is \<^verbatim>\<open>((gint)floor((x) + 0.5))\<close>. Converting a not-a-number or an
  infinity to \<^verbatim>\<open>gint\<close> is undefined as well.
\<close>

fun GWY_ROUND :: "double \<Rightarrow> int option" where
  "GWY_ROUND (Num r) = gint_of \<lfloor>r + 1 / 2\<rfloor>"
| "GWY_ROUND NegZero = Some 0"
| "GWY_ROUND _ = None"

text \<open>
  \<^verbatim>\<open>gwy_data_field_new_resampled(field, xres, yres, interpolation)\<close>: a new field of the
  requested resolution with the extents and offsets of the source. The library requires
  both resolutions to be positive and returns no field (\<^verbatim>\<open>NULL\<close>) otherwise: \<open>None\<close>. The
  interpolated samples are the library's business: \<open>interp\<close> stands for them.
\<close>

definition gwy_data_field_new_resampled ::
  "(GwyDataField \<Rightarrow> int \<Rightarrow> int \<Rightarrow> real list) \<Rightarrow> GwyDataField \<Rightarrow> int \<Rightarrow> int
     \<Rightarrow> GwyDataField option" where
  "gwy_data_field_new_resampled interp d nx ny =
     (if 0 < nx \<and> 0 < ny then Some (d\<lparr>xres := nx, yres := ny, data := interp d nx ny\<rparr>)
      else None)"

section \<open>Scale factors: update, manual entry, clamp entry\<close>

text \<open>\<^verbatim>\<open>calibrate_update_scales\<close> (the text of the two entries is not part of the state).\<close>

definition calibrate_update_scales :: "ThresholdControls \<Rightarrow> ThresholdControls" where
  "calibrate_update_scales controls =
     (if gwy_selection_is_full (selection controls) then calibration_get_factors controls
      else controls\<lparr>args := (args controls)
             \<lparr>Xscale := Num 0, Yscale := Num 0, Xwarning := False, Ywarning := False\<rparr>\<rparr>)"

text \<open>\<^verbatim>\<open>clear_points\<close>: \<^verbatim>\<open>gwy_selection_clear\<close>, then the scale update.\<close>

definition clear_points :: "ThresholdControls \<Rightarrow> ThresholdControls" where
  "clear_points controls = calibrate_update_scales (controls\<lparr>selection := []\<rparr>)"

text \<open>
  \<^verbatim>\<open>xscale_changed\<close> and \<^verbatim>\<open>yscale_changed\<close>; \<open>entered\<close> is what \<^verbatim>\<open>g_strtod\<close> made of the
  text of the entry.
\<close>

definition xscale_changed :: "double \<Rightarrow> ThresholdControls \<Rightarrow> ThresholdControls" where
  "xscale_changed entered controls =
     (let num = entered in
      if dne num (Xscale (args controls)) \<and> dgt num (Num 0)
      then controls\<lparr>args := (args controls)\<lparr>Xscale := num\<rparr>\<rparr>
      else controls)"

definition yscale_changed :: "double \<Rightarrow> ThresholdControls \<Rightarrow> ThresholdControls" where
  "yscale_changed entered controls =
     (let num = entered in
      if dne num (Yscale (args controls)) \<and> dgt num (Num 0)
      then controls\<lparr>args := (args controls)\<lparr>Yscale := num\<rparr>\<rparr>
      else controls)"

section \<open>The Display/Zoom Adapter\<close>

text \<open>Integer division of C: the quotient is truncated towards zero.\<close>

definition c_div :: "int \<Rightarrow> int \<Rightarrow> int" where
  "c_div a b = sgn a * sgn b * (\<bar>a\<bar> div \<bar>b\<bar>)"

text \<open>
  \<^verbatim>\<open>preview\<close>, as far as it changes \<open>disp_data\<close>. For a zoom other than \<open>\<times>1\<close> the samples are
  those of the centred area of \<open>width \<times> height\<close> samples of \<open>offt\<close>, resampled to the
  resolution of \<open>offt\<close> (\<^verbatim>\<open>gwy_data_field_area_extract\<close>, \<^verbatim>\<open>gwy_data_field_resample\<close>:
  \<open>zoomed offt col row width height\<close> stands for the result); \<^verbatim>\<open>gwy_data_field_copy\<close>
  leaves the resolution of its target as it is. \<^verbatim>\<open>width\<close> and \<^verbatim>\<open>height\<close> are
  \<^verbatim>\<open>guint\<close>; for a resolution of at least 1 they do not exceed it, so the unsigned
  differences \<^verbatim>\<open>Xres - width\<close> and \<^verbatim>\<open>Yres - height\<close> do not wrap. The clamped copy that the
  data view shows (\<^verbatim>\<open>threshold_do\<close>) is presentation and is left out.
\<close>

definition preview ::
  "(GwyDataField \<Rightarrow> int \<Rightarrow> int \<Rightarrow> int \<Rightarrow> int \<Rightarrow> real list) \<Rightarrow> ThresholdControls \<Rightarrow> ThresholdControls" where
  "preview zoomed controls =
     (let Xreal = xreal (offt controls);
          Yreal = yreal (offt controls);
          Xoff = xoff (offt controls);
          Yoff = yoff (offt controls);
          zoom = zoom_mode (args controls);
          samples =
            (if zoom \<noteq> ZOOM_1 then
               (let Xres = xres (offt controls);
                    Yres = yres (offt controls);
                    width = or (c_div Xres (zoom_int zoom)) 1;
                    height = or (c_div Yres (zoom_int zoom)) 1
                in zoomed (offt controls) (c_div (Xres - width) 2) (c_div (Yres - height) 2)
                     width height)
             else data (offt controls))
      in controls\<lparr>disp_data := (disp_data controls)
           \<lparr>data := samples,
            xreal := Xreal / real_of_int (zoom_int zoom),
            yreal := Yreal / real_of_int (zoom_int zoom),
            xoff := Xoff / real_of_int (zoom_int zoom),
            yoff := Yoff / real_of_int (zoom_int zoom)\<rparr>\<rparr>)"

text \<open>
  \<^verbatim>\<open>threshold_lower_changed\<close> and \<^verbatim>\<open>threshold_upper_changed\<close>; \<open>entered\<close> is what
  \<^verbatim>\<open>g_strtod\<close> made of the text of the entry.
\<close>

definition threshold_lower_changed ::
  "(GwyDataField \<Rightarrow> int \<Rightarrow> int \<Rightarrow> int \<Rightarrow> int \<Rightarrow> real list) \<Rightarrow> double \<Rightarrow> ThresholdControls
     \<Rightarrow> ThresholdControls" where
  "threshold_lower_changed zoomed entered controls =
     (let num = dmul entered (magnitude controls);
          rmin = Num (range_min (ranges controls));
          rmax = Num (range_max (ranges controls));
          controls1 =
            (if dge num rmin \<and> dle num rmax
             then controls\<lparr>args := (args controls)\<lparr>lower := num\<rparr>\<rparr>
             else if dlt num rmin
             then controls\<lparr>args := (args controls)\<lparr>lower := rmin\<rparr>\<rparr>
             else if dgt num rmax
             then controls\<lparr>args := (args controls)\<lparr>lower := rmax\<rparr>\<rparr>
             else controls)
      in preview zoomed controls1)"

definition threshold_upper_changed ::
  "(GwyDataField \<Rightarrow> int \<Rightarrow> int \<Rightarrow> int \<Rightarrow> int \<Rightarrow> real list) \<Rightarrow> double \<Rightarrow> ThresholdControls
     \<Rightarrow> ThresholdControls" where
  "threshold_upper_changed zoomed entered controls =
     (let num = dmul entered (magnitude controls);
          rmin = Num (range_min (ranges controls));
          rmax = Num (range_max (ranges controls));
          controls1 =
            (if dge num rmin \<and> dle num rmax
             then controls\<lparr>args := (args controls)\<lparr>upper := num\<rparr>\<rparr>
             else if dlt num rmin
             then controls\<lparr>args := (args controls)\<lparr>upper := rmin\<rparr>\<rparr>
             else if dgt num rmax
             then controls\<lparr>args := (args controls)\<lparr>upper := rmax\<rparr>\<rparr>
             else controls)
      in preview zoomed controls1)"

section \<open>The Calibration Applier\<close>


text \<open>
  What can go wrong in \<^verbatim>\<open>calibrate_do\<close>: the conversion to \<^verbatim>\<open>gint\<close> inside \<^verbatim>\<open>GWY_ROUND\<close>
  is undefined; the library refuses the new resolution and returns no field, so that the
  program has no image to hand to the host; an extent is no number (images have real
  extents in this model).
\<close>

datatype apply_error = Undefined_conversion | Resample_refused | Extent_not_a_number

fun extent_of :: "double \<Rightarrow> real option" where
  "extent_of (Num r) = Some r"
| "extent_of NegZero = Some 0"
| "extent_of _ = None"

text \<open>
  \<^verbatim>\<open>calibrate_do\<close>, up to the new field; \<^verbatim>\<open>calibrate_create_output\<close> hands that field and
  its metadata to the host.
\<close>

definition calibrate_do ::
  "(GwyDataField \<Rightarrow> int \<Rightarrow> int \<Rightarrow> real list) \<Rightarrow> ThresholdControls \<Rightarrow> apply_error + GwyDataField" where
  "calibrate_do interp controls =
     (let oldXres = xres (ofield controls);
          oldYres = yres (ofield controls)
      in case GWY_ROUND (Num (real_of_int oldXres)) of
           None \<Rightarrow> Inl Undefined_conversion
         | Some newXres \<Rightarrow>
            (case GWY_ROUND (ddiv (dmul (Num (real_of_int oldYres)) (Yscale (args controls)))
                                  (Xscale (args controls))) of
               None \<Rightarrow> Inl Undefined_conversion
             | Some newYres \<Rightarrow>
                (case gwy_data_field_new_resampled interp (ofield controls) newXres newYres of
                   None \<Rightarrow> Inl Resample_refused
                 | Some newDataField \<Rightarrow>
                    (let oldXreal = xreal (ofield controls);
                         oldYreal = yreal (ofield controls);
                         newXreal = dmul (Num oldXreal) (Xscale (args controls));
                         newYreal = dmul (Num oldYreal) (Yscale (args controls))
                     in case (extent_of newXreal, extent_of newYreal) of
                          (Some xr, Some yr) \<Rightarrow> Inr (newDataField\<lparr>xreal := xr, yreal := yr\<rparr>)
                        | _ \<Rightarrow> Inl Extent_not_a_number))))"

text \<open>
  The end of \<^verbatim>\<open>calibrate_hcp_dialog\<close> after the response OK: the calibration is applied
  when the selection is full, or else when both scale factors are positive. \<open>None\<close>: no
  output.
\<close>

definition dialog_response_ok ::
  "(GwyDataField \<Rightarrow> int \<Rightarrow> int \<Rightarrow> real list) \<Rightarrow> ThresholdControls
     \<Rightarrow> (apply_error + GwyDataField) option" where
  "dialog_response_ok interp controls =
     (if gwy_selection_is_full (selection controls) then Some (calibrate_do interp controls)
      else if dgt (Xscale (args controls)) (Num 0) \<and> dgt (Yscale (args controls)) (Num 0)
      then Some (calibrate_do interp controls)
      else None)"

section \<open>The Peak Locator\<close>

text \<open>
  The body of the two loops of \<^verbatim>\<open>peak_find\<close>: the sample at column \<open>i\<close>, row \<open>j\<close> replaces
  the running maximum \<open>(temp_i, temp_j, temp_z)\<close> when it is strictly greater.
\<close>

definition peak_step ::
  "GwyDataField \<Rightarrow> int \<Rightarrow> int \<Rightarrow> (int \<times> int \<times> real) option \<Rightarrow> (int \<times> int \<times> real) option" where
  "peak_step d i j acc =
     (case acc of
        None \<Rightarrow> None
      | Some (temp_i, temp_j, temp_z) \<Rightarrow>
         (case gwy_data_field_get_val d i j of
            None \<Rightarrow> None
          | Some v \<Rightarrow> if v > temp_z then Some (i, j, v) else Some (temp_i, temp_j, temp_z)))"

text \<open>
  \<^verbatim>\<open>for (i = low_i; i < high_i; i++) for (j = low_j; j < high_j; j++)\<close>: the outer loop
  runs over the columns, the inner loop over the rows.
\<close>

definition peak_scan ::
  "GwyDataField \<Rightarrow> int \<Rightarrow> int \<Rightarrow> int \<Rightarrow> int \<Rightarrow> (int \<times> int \<times> real) option
     \<Rightarrow> (int \<times> int \<times> real) option" where
  "peak_scan d low_i high_i low_j high_j acc =
     fold (\<lambda>i. fold (\<lambda>j. peak_step d i j) [low_j..high_j - 1]) [low_i..high_i - 1] acc"

text \<open>
  The search of \<^verbatim>\<open>peak_find\<close> from the pixel \<open>(col, row)\<close> with radius \<open>r\<close>: the running
  maximum starts at the sample of the pixel itself, the window is clamped to the field.
\<close>

definition peak_pixel :: "GwyDataField \<Rightarrow> int \<Rightarrow> int \<Rightarrow> int \<Rightarrow> (int \<times> int \<times> real) option" where
  "peak_pixel d col row r =
     (case gwy_data_field_get_val d col row of
        None \<Rightarrow> None
      | Some temp_z \<Rightarrow>
         (let Xres = xres d;
              Yres = yres d;
              low_i = (if col - r < 0 then 0 else col - r);
              high_i = (if col + r > Xres then Xres else col + r);
              low_j = (if row - r < 0 then 0 else row - r);
              high_j = (if row + r > Yres then Yres else row + r)
          in peak_scan d low_i high_i low_j high_j (Some (col, row, temp_z))))"

text \<open>
  \<^verbatim>\<open>peak_find(controls, point, idx)\<close>: the refined peak goes to \<open>p[idx]\<close>, and when the
  pixel has moved, the selection point \<open>idx\<close> is moved with it. (The function also writes
  the moved point back to the array of its caller, who overwrites or drops it.)
\<close>

definition peak_find :: "ThresholdControls \<Rightarrow> real \<times> real \<Rightarrow> nat \<Rightarrow> ThresholdControls option" where
  "peak_find controls point idx =
     (let d = disp_data controls;
          col = c_trunc (gwy_data_field_rtoj d (fst point));
          row = c_trunc (gwy_data_field_rtoi d (snd point))
      in case peak_pixel d col row (rpx controls) of
           None \<Rightarrow> None
         | Some (temp_i, temp_j, temp_z) \<Rightarrow>
            (let controls1 = controls\<lparr>p := (p controls)
                   (idx := (gwy_data_field_jtor d (real_of_int temp_i) + xoff d,
                            gwy_data_field_itor d (real_of_int temp_j) + yoff d,
                            temp_z))\<rparr>
             in if row - temp_j \<noteq> 0 \<or> col - temp_i \<noteq> 0
                then Some (controls1\<lparr>selection :=
                       gwy_selection_set_object (selection controls1) idx
                         (gwy_data_field_jtor d (real_of_int temp_i),
                          gwy_data_field_itor d (real_of_int temp_j))\<rparr>)
                else Some controls1))"

text \<open>
  The Peak Locator in the words of the specification: the window
  \<open>[col0 - r, col0 + r) \<times> [row0 - r, row0 + r)\<close> clamped to the image, scanned row by row in
  ascending order, the first of the greatest samples winning; with \<open>r = 0\<close> only the sample of
  the pixel itself.
\<close>


definition sample_at :: "GwyDataField \<Rightarrow> int \<times> int \<Rightarrow> real" where
  "sample_at d q = data d ! nat (fst q + xres d * snd q)"





text \<open>
  The pixel of a point in the words of the specification, "the rounded input pixel": the
  pixel coordinates rounded to the nearest whole number.
\<close>

definition spec_rounded_pixel :: "GwyDataField \<Rightarrow> real \<times> real \<Rightarrow> int \<times> int" where
  "spec_rounded_pixel d point =
     (\<lfloor>gwy_data_field_rtoj d (fst point) + 1 / 2\<rfloor>, \<lfloor>gwy_data_field_rtoi d (snd point) + 1 / 2\<rfloor>)"




section \<open>Zoom changes\<close>









section \<open>The Spectral Transform\<close>

text \<open>\<^verbatim>\<open>hypot\<close> of \<^verbatim>\<open>math.h\<close>\<close>

definition hypot :: "real \<Rightarrow> real \<Rightarrow> real" where
  "hypot a b = sqrt (a * a + b * b)"

text \<open>
  The loop of \<^verbatim>\<open>set_dfield_modulus\<close>: \<open>i\<close> samples are read through \<^verbatim>\<open>datare\<close> and
  \<^verbatim>\<open>dataim\<close> and written through \<^verbatim>\<open>data\<close>. Running off the end of one of the three
  arrays is \<open>None\<close>.
\<close>

fun modulus_loop :: "nat \<Rightarrow> real list \<Rightarrow> real list \<Rightarrow> real list \<Rightarrow> real list option" where
  "modulus_loop 0 datare dataim target = Some target"
| "modulus_loop (Suc i) (re # datare) (im # dataim) (t # target) =
     map_option ((#) (hypot re im)) (modulus_loop i datare dataim target)"
| "modulus_loop (Suc i) _ _ _ = None"

text \<open>
  \<^verbatim>\<open>set_dfield_modulus\<close>. The counter starts at \<^verbatim>\<open>xres*yres\<close> of the real part and stops
  at zero; a negative start never gets there from above.
\<close>

definition set_dfield_modulus :: "GwyDataField \<Rightarrow> GwyDataField \<Rightarrow> GwyDataField \<Rightarrow> GwyDataField option" where
  "set_dfield_modulus re im target =
     (if xres re * yres re < 0 then None
      else map_option (\<lambda>samples. target\<lparr>data := samples\<rparr>)
             (modulus_loop (nat (xres re * yres re)) (data re) (data im) (data target)))"

text \<open>
  \<^verbatim>\<open>fft_postprocess\<close>. \<open>humanize xres yres samples\<close> stands for the samples after
  \<^verbatim>\<open>gwy_data_field_2dfft_humanize\<close>, the library's swap of the quadrants;
  \<^verbatim>\<open>gwy_data_field_get_xmeasure\<close> is \<^verbatim>\<open>xreal/xres\<close>; the minimum is that of
  \<^verbatim>\<open>gwy_data_field_get_min_max\<close>, and \<^verbatim>\<open>gwy_data_field_add\<close> adds its negation to every
  sample. (The unit of the axes is left out.)
\<close>

definition fft_postprocess ::
  "(int \<Rightarrow> int \<Rightarrow> real list \<Rightarrow> real list) \<Rightarrow> GwyDataField \<Rightarrow> GwyDataField" where
  "fft_postprocess humanize d =
     (let d1 = d\<lparr>data := humanize (xres d) (yres d) (data d)\<rparr>;
          d2 = d1\<lparr>xreal := 1 / (xreal d1 / real_of_int (xres d1))\<rparr>;
          d3 = d2\<lparr>yreal := 1 / (yreal d2 / real_of_int (yres d2))\<rparr>;
          d4 = d3\<lparr>xoff := - gwy_data_field_jtor d3 (real_of_int (xres d3) / 2)\<rparr>;
          d5 = d4\<lparr>yoff := - gwy_data_field_itor d4 (real_of_int (yres d4) / 2)\<rparr>;
          dmin = Min (set (data d5))
      in d5\<lparr>data := map (\<lambda>v. v + - dmin) (data d5)\<rparr>)"

text \<open>
  \<^verbatim>\<open>perform_fft\<close>. \<open>fft d\<close> stands for the samples that \<^verbatim>\<open>gwy_data_field_2dfft\<close> leaves
  in \<^verbatim>\<open>raout\<close> and \<^verbatim>\<open>ipout\<close>, two fields made like \<open>d\<close> by \<^verbatim>\<open>gwy_data_field_new_alike\<close>.
  (The palette and range keys of the container are presentation.)
\<close>

definition perform_fft ::
  "(GwyDataField \<Rightarrow> real list \<times> real list) \<Rightarrow> (int \<Rightarrow> int \<Rightarrow> real list \<Rightarrow> real list)
     \<Rightarrow> GwyDataField \<Rightarrow> GwyDataField option" where
  "perform_fft fft humanize d =
     (let raout = d\<lparr>data := fst (fft d)\<rparr>;
          ipout = d\<lparr>data := snd (fft d)\<rparr>
      in map_option (fft_postprocess humanize) (set_dfield_modulus raout ipout d))"

section \<open>Concrete sessions\<close>

text \<open>\<^verbatim>\<open>threshold_defaults\<close>, the initial arguments of a session.\<close>

definition threshold_defaults :: ThresholdArgs where
  "threshold_defaults =
     \<lparr>lower = Num 0, upper = Num 0, lattice = Num (1 / 10 ^ 9), Xscale = Num 1, Yscale = Num 1,
      Xwarning = False, Ywarning = False, zoom_mode = ZOOM_1\<rparr>"

text \<open>
  A spectrum of \<open>4 \<times> 4\<close> samples, centred as \<^verbatim>\<open>fft_postprocess\<close> leaves it, and a session
  on it with a given selection and given peaks.
\<close>

definition example_field :: GwyDataField where
  "example_field =
     \<lparr>xres = 4, yres = 4, xreal = 4, yreal = 4, xoff = - 2, yoff = - 2,
      data = [0, 1, 2, 3, 1, 7, 2, 0, 0, 2, 5, 1, 3, 0, 1, 0]\<rparr>"



definition example_session ::
  "(real \<times> real) list \<Rightarrow> real \<times> real \<times> real \<Rightarrow> real \<times> real \<times> real \<Rightarrow> ThresholdControls" where
  "example_session sel p0 p1 =
     \<lparr>args = threshold_defaults, ranges = \<lparr>range_min = 0, range_max = 7\<rparr>, magnitude = Num 1,
      ofield = example_field, offt = example_field, disp_data = example_field,
      dfield = example_field, selection = sel,
      p = (\<lambda>i. if i = 0 then p0 else p1), rpx = 3\<rparr>"


text \<open>
  A session on the example spectrum at zoom \<open>\<times>2\<close> with search radius 0, in which the point
  \<open>(3/5, 3/5)\<close> of the displayed image has just been picked, and the same session once
  \<^verbatim>\<open>peak_find\<close> has refined that point. \<open>plain_zoom\<close> stands in for the resampling of the
  library; with radius 0 the samples have no part in where a peak lies.
\<close>

definition plain_zoom :: "GwyDataField \<Rightarrow> int \<Rightarrow> int \<Rightarrow> int \<Rightarrow> int \<Rightarrow> real list" where
  "plain_zoom d col row width height = data d"





text \<open>
  A session on the example spectrum (data range \<open>[0, 7]\<close>) whose intensity bounds have been
  set to 3 and 5.
\<close>

definition bounds_session :: ThresholdControls where
  "bounds_session =
     (example_session [] (0, 0, 0) (0, 0, 0))
       \<lparr>args := threshold_defaults\<lparr>lower := Num 3, upper := Num 5\<rparr>\<rparr>"


section \<open>Properties\<close>

subsection \<open>Doubles that are numbers\<close>

lemma dne_self: "dne x x = isnan x"
  by (cases x) (simp_all add: dne_def deq_def)

lemma dmul_Num_nz: "x * y \<noteq> 0 \<Longrightarrow> dmul (Num x) (Num y) = Num (x * y)"
  by (simp add: dmul_def mk_num_def)

lemma dsub_Num: "dsub (Num x) (Num y) = Num (x - y)"
  by (simp add: dsub_def mk_zero_def)

lemma ddiv_Num_nz: "x \<noteq> 0 \<Longrightarrow> y \<noteq> 0 \<Longrightarrow> ddiv (Num x) (Num y) = Num (x / y)"
  by (simp add: ddiv_def mk_num_def)

lemma dmul_square_Num: "dmul (Num x) (Num x) = Num (x * x)"
  by (simp add: dmul_def mk_num_def mk_zero_def)

lemma deq_Num: "deq (Num x) (Num y) = (x = y)"
  by (auto simp add: deq_def)

subsection \<open>The Lattice Solver\<close>

lemma solver_Xscale:
  "Xscale (args (calibration_get_factors c)) =
     ddiv (Num 1) (spec_xcorr (lattice (args c)) (Num (fst (p c 0))) (Num (fst (snd (p c 0))))
        (Num (fst (p c 1))) (Num (fst (snd (p c 1)))))"
  by (simp add: calibration_get_factors_def Let_def spec_xcorr_def spec_ycorr_def spec_R_def)

lemma solver_Yscale:
  "Yscale (args (calibration_get_factors c)) =
     ddiv (Num 1) (spec_ycorr (lattice (args c)) (Num (fst (p c 0))) (Num (fst (snd (p c 0))))
        (Num (fst (p c 1))) (Num (fst (snd (p c 1)))))"
  by (simp add: calibration_get_factors_def Let_def spec_xcorr_def spec_ycorr_def spec_R_def)

lemma solver_Xwarning:
  "Xwarning (args (calibration_get_factors c)) =
     (let x1_2 = dmul (Num (fst (p c 0))) (Num (fst (p c 0)));
          y1_2 = dmul (Num (fst (snd (p c 0)))) (Num (fst (snd (p c 0))));
          x2_2 = dmul (Num (fst (p c 1))) (Num (fst (p c 1)));
          y2_2 = dmul (Num (fst (snd (p c 1)))) (Num (fst (snd (p c 1))))
      in deq x1_2 x2_2 \<or> deq x1_2 (Num 0) \<or> isnan (Xscale (args (calibration_get_factors c)))
         \<or> deq (dmul x1_2 y2_2) (dmul x2_2 y1_2))"
  by (auto simp add: calibration_get_factors_def Let_def dne_self)

lemma solver_Ywarning:
  "Ywarning (args (calibration_get_factors c)) =
     (let x1_2 = dmul (Num (fst (p c 0))) (Num (fst (p c 0)));
          y1_2 = dmul (Num (fst (snd (p c 0)))) (Num (fst (snd (p c 0))));
          x2_2 = dmul (Num (fst (p c 1))) (Num (fst (p c 1)));
          y2_2 = dmul (Num (fst (snd (p c 1)))) (Num (fst (snd (p c 1))))
      in deq y1_2 y2_2 \<or> isnan (Yscale (args (calibration_get_factors c)))
         \<or> deq (dmul x1_2 y2_2) (dmul x2_2 y1_2))"
  by (auto simp add: calibration_get_factors_def Let_def dne_self)

lemma triangle_R:
  assumes "0 < a"
  shows "spec_R (Num a) = Num (2 / (sqrt 3 * a))"
  using assms by (simp add: spec_R_def dmul_Num_nz ddiv_Num_nz)

lemma triangle_ycorr:
  assumes "0 < a"
  shows "spec_ycorr (Num a) (Num 3) (Num 1) (Num 1) (Num 3) = Num (2 / (sqrt 3 * a) * sqrt (1 / 10))"
  using assms
  by (simp add: spec_ycorr_def triangle_R dmul_Num_nz dsub_Num ddiv_Num_nz)

lemma triangle_xcorr:
  assumes "0 < a"
  shows "spec_xcorr (Num a) (Num 3) (Num 1) (Num 1) (Num 3) = Num (2 / (sqrt 3 * a) * sqrt (1 / 10))"
proof -
  define r where "r = 2 / (sqrt 3 * a)"
  define s where "s = sqrt (1 / 10 :: real)"
  have r: "0 < r" using assms by (simp add: r_def)
  have s: "0 < s" by (simp add: s_def)
  have ss: "s * s = 1 / 10" by (simp add: s_def)
  have yy: "(r * s) * (r * s) = r * r / 10"
  proof -
    have "(r * s) * (r * s) = r * r * (s * s)" by (simp add: algebra_simps)
    then show ?thesis by (simp add: ss)
  qed
  have q: "(r * r - r * r / 10) / 9 = (r * s) * (r * s)"
    by (simp add: yy)
  have nz: "r * r - r * r / 10 \<noteq> 0" using r by simp
  have "spec_xcorr (Num a) (Num 3) (Num 1) (Num 1) (Num 3)
        = dsqrt (ddiv (dsub (dmul (Num r) (Num r)) (dmul (dmul (Num (r * s)) (Num (r * s))) (Num 1))) (Num 9))"
    using assms
    by (simp add: spec_xcorr_def triangle_R triangle_ycorr r_def s_def dmul_square_Num)
  also have "\<dots> = dsqrt (ddiv (Num (r * r - r * r / 10)) (Num 9))"
    using r s by (simp add: dmul_square_Num dmul_Num_nz dsub_Num yy)
  also have "\<dots> = dsqrt (Num ((r * s) * (r * s)))"
  proof -
    have "ddiv (Num (r * r - r * r / 10)) (Num 9) = Num ((r * r - r * r / 10) / 9)"
      using nz by (intro ddiv_Num_nz) simp_all
    then show ?thesis by (simp only: q)
  qed
  also have "\<dots> = Num (r * s)"
    using r s by (simp add: real_sqrt_mult)
  finally show ?thesis by (simp add: r_def s_def)
qed

lemma triangle_inverse:
  assumes "0 < a"
  shows "ddiv (Num 1) (Num (2 / (sqrt 3 * a) * sqrt (1 / 10))) = Num (a * sqrt 30 / 2)"
proof -
  have "sqrt 30 = sqrt 3 * sqrt 10" 
    using real_sqrt_mult [of 3 10] by simp
  moreover have "sqrt 10 * sqrt 10 = (10::real)" by simp
  ultimately have "1 / (2 / (sqrt 3 * a) * sqrt (1 / 10)) = a * sqrt 30 / 2"
    using assms by (simp add: real_sqrt_divide field_simps)
  moreover have "2 / (sqrt 3 * a) * sqrt (1 / 10) \<noteq> 0" using assms by simp
  ultimately show ?thesis by (simp add: ddiv_Num_nz)
qed

lemma triangle_no_warnings:
  assumes "fst (p c 0) = 3" "fst (snd (p c 0)) = 1" "fst (p c 1) = 1" "fst (snd (p c 1)) = 3"
    and "\<not> isnan (Xscale (args (calibration_get_factors c)))"
    and "\<not> isnan (Yscale (args (calibration_get_factors c)))"
  shows "\<not> Xwarning (args (calibration_get_factors c)) \<and> \<not> Ywarning (args (calibration_get_factors c))"
  using assms unfolding solver_Xwarning solver_Ywarning
  by (simp add: Let_def dmul_square_Num dmul_Num_nz deq_Num)

text \<open>
  Claim C1. For all peak positions held in the session and every lattice constant, the
  Lattice Solver stores \<open>Xscale = 1 / xcorr\<close> and \<open>Yscale = 1 / ycorr\<close>, with \<open>R\<close>, \<open>ycorr\<close>
  and \<open>xcorr\<close> as the specification defines them. For the triangle \<open>(3, 1)\<close>, \<open>(1, 3)\<close> and a
  positive lattice constant \<open>a\<close> both factors are the number \<open>a \<cdot> \<surd>30 / 2\<close>, which is
  positive, and no warning is raised.
\<close>

theorem lattice_solver_factors:
  "Xscale (args (calibration_get_factors c)) =
     ddiv (Num 1) (spec_xcorr (lattice (args c)) (Num (fst (p c 0))) (Num (fst (snd (p c 0))))
        (Num (fst (p c 1))) (Num (fst (snd (p c 1)))))
   \<and> Yscale (args (calibration_get_factors c)) =
     ddiv (Num 1) (spec_ycorr (lattice (args c)) (Num (fst (p c 0))) (Num (fst (snd (p c 0))))
        (Num (fst (p c 1))) (Num (fst (snd (p c 1)))))
   \<and> (0 < a \<and> lattice (args c) = Num a
        \<and> fst (p c 0) = 3 \<and> fst (snd (p c 0)) = 1 \<and> fst (p c 1) = 1 \<and> fst (snd (p c 1)) = 3
      \<longrightarrow> Xscale (args (calibration_get_factors c)) = Num (a * sqrt 30 / 2)
        \<and> Yscale (args (calibration_get_factors c)) = Num (a * sqrt 30 / 2)
        \<and> 0 < a * sqrt 30 / 2
        \<and> \<not> Xwarning (args (calibration_get_factors c))
        \<and> \<not> Ywarning (args (calibration_get_factors c)))"
proof (intro conjI impI)
  show "Xscale (args (calibration_get_factors c)) =
     ddiv (Num 1) (spec_xcorr (lattice (args c)) (Num (fst (p c 0))) (Num (fst (snd (p c 0))))
        (Num (fst (p c 1))) (Num (fst (snd (p c 1)))))"
    by (rule solver_Xscale)
  show "Yscale (args (calibration_get_factors c)) =
     ddiv (Num 1) (spec_ycorr (lattice (args c)) (Num (fst (p c 0))) (Num (fst (snd (p c 0))))
        (Num (fst (p c 1))) (Num (fst (snd (p c 1)))))"
    by (rule solver_Yscale)
next
  assume h: "0 < a \<and> lattice (args c) = Num a
        \<and> fst (p c 0) = 3 \<and> fst (snd (p c 0)) = 1 \<and> fst (p c 1) = 1 \<and> fst (snd (p c 1)) = 3"
  then have a: "0 < a" by simp
  have x: "spec_xcorr (lattice (args c)) (Num (fst (p c 0))) (Num (fst (snd (p c 0))))
        (Num (fst (p c 1))) (Num (fst (snd (p c 1)))) = Num (2 / (sqrt 3 * a) * sqrt (1 / 10))"
    using h triangle_xcorr [OF a] by simp
  have y: "spec_ycorr (lattice (args c)) (Num (fst (p c 0))) (Num (fst (snd (p c 0))))
        (Num (fst (p c 1))) (Num (fst (snd (p c 1)))) = Num (2 / (sqrt 3 * a) * sqrt (1 / 10))"
    using h triangle_ycorr [OF a] by simp
  show xs: "Xscale (args (calibration_get_factors c)) = Num (a * sqrt 30 / 2)"
    by (simp only: solver_Xscale x triangle_inverse [OF a])
  show ys: "Yscale (args (calibration_get_factors c)) = Num (a * sqrt 30 / 2)"
    by (simp only: solver_Yscale y triangle_inverse [OF a])
  show "0 < a * sqrt 30 / 2" using a by simp
  have "\<not> Xwarning (args (calibration_get_factors c)) \<and> \<not> Ywarning (args (calibration_get_factors c))"
    using h by (intro triangle_no_warnings) (simp_all add: xs ys)
  then show "\<not> Xwarning (args (calibration_get_factors c))"
    and "\<not> Ywarning (args (calibration_get_factors c))" by simp_all
qed

theorem lattice_solver_factors_witness:
  "Xscale (args (calibration_get_factors (example_session [(3, 1), (1, 3)] (3, 1, 7) (1, 3, 5))))
     = Num (1 / 10 ^ 9 * sqrt 30 / 2)
   \<and> Yscale (args (calibration_get_factors (example_session [(3, 1), (1, 3)] (3, 1, 7) (1, 3, 5))))
     = Num (1 / 10 ^ 9 * sqrt 30 / 2)
   \<and> \<not> Xwarning (args (calibration_get_factors (example_session [(3, 1), (1, 3)] (3, 1, 7) (1, 3, 5))))
   \<and> \<not> Ywarning (args (calibration_get_factors (example_session [(3, 1), (1, 3)] (3, 1, 7) (1, 3, 5))))"
proof -
  let ?c = "example_session [(3, 1), (1, 3)] (3, 1, 7) (1, 3, 5)"
  have "0 < (1 / 10 ^ 9 :: real) \<and> lattice (args ?c) = Num (1 / 10 ^ 9)
        \<and> fst (p ?c 0) = 3 \<and> fst (snd (p ?c 0)) = 1 \<and> fst (p ?c 1) = 1 \<and> fst (snd (p ?c 1)) = 3"
    by (simp add: example_session_def threshold_defaults_def)
  with lattice_solver_factors [of ?c "1 / 10 ^ 9"] show ?thesis
    by blast
qed

lemma args_preview: "args (preview zoomed c) = args c"
  by (simp add: preview_def Let_def)

lemma deq_pos_eq: "dgt x (Num 0) \<Longrightarrow> deq x y \<Longrightarrow> y = x"
  by (cases x; cases y) (auto simp add: dgt_def deq_def)

lemma calibrate_do_reads:
  assumes "ofield c' = ofield c" "Xscale (args c') = Xscale (args c)"
    "Yscale (args c') = Yscale (args c)"
  shows "calibrate_do interp c' = calibrate_do interp c"
  unfolding calibrate_do_def assms ..

lemma same_x_square: "deq (dmul (Num x) (Num x)) (dmul (Num x) (Num x))"
  by (simp add: dmul_square_Num deq_Num)

text \<open>
  Claim C2. After the Lattice Solver has run, \<open>Xwarning\<close> is set exactly when
  \<open>x1\<^sup>2 == x2\<^sup>2\<close>, or \<open>x1\<^sup>2 == 0\<close>, or the computed \<open>Xscale\<close> is not-a-number, or
  \<open>x1\<^sup>2 \<cdot> y2\<^sup>2 == x2\<^sup>2 \<cdot> y1\<^sup>2\<close>; \<open>Ywarning\<close> is set exactly when \<open>y1\<^sup>2 == y2\<^sup>2\<close>, or the
  computed \<open>Yscale\<close> is not-a-number, or \<open>x1\<^sup>2 \<cdot> y2\<^sup>2 == x2\<^sup>2 \<cdot> y1\<^sup>2\<close> (the squares and
  products as the program computes them, \<open>==\<close> the comparison of C). Equal \<open>x1\<close> and \<open>x2\<close>,
  zero or not, set \<open>Xwarning\<close>. The warnings do not block the calibration: what the
  dialogue does on OK does not depend on the two flags, and with a full selection it
  applies the factors the solver computed.
\<close>

theorem lattice_solver_warnings:
  "Xwarning (args (calibration_get_factors c)) =
     (let x1_2 = dmul (Num (fst (p c 0))) (Num (fst (p c 0)));
          y1_2 = dmul (Num (fst (snd (p c 0)))) (Num (fst (snd (p c 0))));
          x2_2 = dmul (Num (fst (p c 1))) (Num (fst (p c 1)));
          y2_2 = dmul (Num (fst (snd (p c 1)))) (Num (fst (snd (p c 1))))
      in deq x1_2 x2_2 \<or> deq x1_2 (Num 0) \<or> isnan (Xscale (args (calibration_get_factors c)))
         \<or> deq (dmul x1_2 y2_2) (dmul x2_2 y1_2))
   \<and> Ywarning (args (calibration_get_factors c)) =
     (let x1_2 = dmul (Num (fst (p c 0))) (Num (fst (p c 0)));
          y1_2 = dmul (Num (fst (snd (p c 0)))) (Num (fst (snd (p c 0))));
          x2_2 = dmul (Num (fst (p c 1))) (Num (fst (p c 1)));
          y2_2 = dmul (Num (fst (snd (p c 1)))) (Num (fst (snd (p c 1))))
      in deq y1_2 y2_2 \<or> isnan (Yscale (args (calibration_get_factors c)))
         \<or> deq (dmul x1_2 y2_2) (dmul x2_2 y1_2))
   \<and> (fst (p c 0) = fst (p c 1) \<longrightarrow> Xwarning (args (calibration_get_factors c)))
   \<and> dialog_response_ok interp (c\<lparr>args := (args c)\<lparr>Xwarning := xw, Ywarning := yw\<rparr>\<rparr>)
       = dialog_response_ok interp c
   \<and> (gwy_selection_is_full (selection c) \<longrightarrow>
        dialog_response_ok interp (calibration_get_factors c)
          = Some (calibrate_do interp (calibration_get_factors c)))"
proof (intro conjI impI)
  show "Xwarning (args (calibration_get_factors c)) =
     (let x1_2 = dmul (Num (fst (p c 0))) (Num (fst (p c 0)));
          y1_2 = dmul (Num (fst (snd (p c 0)))) (Num (fst (snd (p c 0))));
          x2_2 = dmul (Num (fst (p c 1))) (Num (fst (p c 1)));
          y2_2 = dmul (Num (fst (snd (p c 1)))) (Num (fst (snd (p c 1))))
      in deq x1_2 x2_2 \<or> deq x1_2 (Num 0) \<or> isnan (Xscale (args (calibration_get_factors c)))
         \<or> deq (dmul x1_2 y2_2) (dmul x2_2 y1_2))"
    by (rule solver_Xwarning)
  show "Ywarning (args (calibration_get_factors c)) =
     (let x1_2 = dmul (Num (fst (p c 0))) (Num (fst (p c 0)));
          y1_2 = dmul (Num (fst (snd (p c 0)))) (Num (fst (snd (p c 0))));
          x2_2 = dmul (Num (fst (p c 1))) (Num (fst (p c 1)));
          y2_2 = dmul (Num (fst (snd (p c 1)))) (Num (fst (snd (p c 1))))
      in deq y1_2 y2_2 \<or> isnan (Yscale (args (calibration_get_factors c)))
         \<or> deq (dmul x1_2 y2_2) (dmul x2_2 y1_2))"
    by (rule solver_Ywarning)
  show "Xwarning (args (calibration_get_factors c))" if "fst (p c 0) = fst (p c 1)"
    unfolding solver_Xwarning Let_def using that same_x_square [of "fst (p c 1)"] by simp
  show "dialog_response_ok interp (c\<lparr>args := (args c)\<lparr>Xwarning := xw, Ywarning := yw\<rparr>\<rparr>)
       = dialog_response_ok interp c"
  proof -
    have "calibrate_do interp (c\<lparr>args := (args c)\<lparr>Xwarning := xw, Ywarning := yw\<rparr>\<rparr>)
          = calibrate_do interp c"
      by (rule calibrate_do_reads) simp_all
    then show ?thesis by (simp add: dialog_response_ok_def)
  qed
  show "dialog_response_ok interp (calibration_get_factors c)
          = Some (calibrate_do interp (calibration_get_factors c))"
    if "gwy_selection_is_full (selection c)"
    using that by (simp add: dialog_response_ok_def calibration_get_factors_def Let_def)
qed

theorem lattice_solver_warnings_witness:
  "Xwarning (args (calibration_get_factors (example_session [(2, 1), (2, 3)] (2, 1, 7) (2, 3, 5))))
   \<and> dialog_response_ok (\<lambda>d nx ny. [])
        (calibration_get_factors (example_session [(2, 1), (2, 3)] (2, 1, 7) (2, 3, 5)))
      = Some (calibrate_do (\<lambda>d nx ny. [])
          (calibration_get_factors (example_session [(2, 1), (2, 3)] (2, 1, 7) (2, 3, 5))))"
proof -
  let ?c = "example_session [(2, 1), (2, 3)] (2, 1, 7) (2, 3, 5)"
  have "fst (p ?c 0) = fst (p ?c 1)" and "gwy_selection_is_full (selection ?c)"
    by (simp_all add: example_session_def gwy_selection_is_full_def)
  with lattice_solver_warnings [of ?c "\<lambda>d nx ny. []"] show ?thesis
    by blast
qed

subsection \<open>Manually entered scale factors\<close>

text \<open>
  Claim C8. A manually entered X or Y scale factor that is positive replaces the stored
  factor, whatever that was, and nothing else in the session changes; an entry that is not
  positive (zero, negative, or not a number) leaves the session as it is.
\<close>

theorem manual_scale_entry:
  "(dgt num (Num 0) \<longrightarrow>
      xscale_changed num c = c\<lparr>args := (args c)\<lparr>Xscale := num\<rparr>\<rparr>
    \<and> yscale_changed num c = c\<lparr>args := (args c)\<lparr>Yscale := num\<rparr>\<rparr>)
   \<and> (\<not> dgt num (Num 0) \<longrightarrow> xscale_changed num c = c \<and> yscale_changed num c = c)"
proof (intro conjI impI)
  assume pos: "dgt num (Num 0)"
  show "xscale_changed num c = c\<lparr>args := (args c)\<lparr>Xscale := num\<rparr>\<rparr>"
  proof (cases "dne num (Xscale (args c))")
    case True
    with pos show ?thesis by (simp add: xscale_changed_def)
  next
    case False
    then have "Xscale (args c) = num" using pos by (simp add: dne_def deq_pos_eq)
    then have "c\<lparr>args := (args c)\<lparr>Xscale := num\<rparr>\<rparr> = c" by auto
    with False show ?thesis by (simp add: xscale_changed_def)
  qed
  show "yscale_changed num c = c\<lparr>args := (args c)\<lparr>Yscale := num\<rparr>\<rparr>"
  proof (cases "dne num (Yscale (args c))")
    case True
    with pos show ?thesis by (simp add: yscale_changed_def)
  next
    case False
    then have "Yscale (args c) = num" using pos by (simp add: dne_def deq_pos_eq)
    then have "c\<lparr>args := (args c)\<lparr>Yscale := num\<rparr>\<rparr> = c" by auto
    with False show ?thesis by (simp add: yscale_changed_def)
  qed
next
  assume "\<not> dgt num (Num 0)"
  then show "xscale_changed num c = c" and "yscale_changed num c = c"
    by (simp_all add: xscale_changed_def yscale_changed_def)
qed

theorem manual_scale_entry_witness:
  "xscale_changed (Num 2) (example_session [] (0, 0, 0) (0, 0, 0))
     = (example_session [] (0, 0, 0) (0, 0, 0))
         \<lparr>args := (args (example_session [] (0, 0, 0) (0, 0, 0)))\<lparr>Xscale := Num 2\<rparr>\<rparr>
   \<and> yscale_changed (Num (- 2)) (example_session [] (0, 0, 0) (0, 0, 0))
     = example_session [] (0, 0, 0) (0, 0, 0)"
proof -
  have "dgt (Num 2) (Num 0)" and "\<not> dgt (Num (- 2)) (Num 0)"
    by (simp_all add: dgt_def)
  with manual_scale_entry [of "Num 2" "example_session [] (0, 0, 0) (0, 0, 0)"]
    manual_scale_entry [of "Num (- 2)" "example_session [] (0, 0, 0) (0, 0, 0)"]
  show ?thesis by blast
qed

subsection \<open>Manually entered intensity bounds\<close>

lemma lower_update:
  "lower (args (threshold_lower_changed zoomed entered c)) =
     (let num = dmul entered (magnitude c);
          rmin = Num (range_min (ranges c));
          rmax = Num (range_max (ranges c))
      in if dge num rmin \<and> dle num rmax then num
         else if dlt num rmin then rmin
         else if dgt num rmax then rmax
         else lower (args c))"
  by (simp add: threshold_lower_changed_def Let_def args_preview)

lemma upper_update:
  "upper (args (threshold_upper_changed zoomed entered c)) =
     (let num = dmul entered (magnitude c);
          rmin = Num (range_min (ranges c));
          rmax = Num (range_max (ranges c))
      in if dge num rmin \<and> dle num rmax then num
         else if dlt num rmin then rmin
         else if dgt num rmax then rmax
         else upper (args c))"
  by (simp add: threshold_upper_changed_def Let_def args_preview)

lemma clamp_chain:
  assumes "a \<le> b"
    and "r = (if dge num (Num a) \<and> dle num (Num b) then num
              else if dlt num (Num a) then Num a
              else if dgt num (Num b) then Num b
              else old)"
  shows "(dge num (Num a) \<and> dle num (Num b) \<longrightarrow> r = num)
    \<and> (dlt num (Num a) \<longrightarrow> r = Num a)
    \<and> (dgt num (Num b) \<longrightarrow> r = Num b)
    \<and> (\<not> isnan num \<longrightarrow> dge r (Num a) \<and> dle r (Num b))"
  using assms
  by (cases num) (auto simp add: dge_def dle_def dgt_def deq_def)

lemma clamp_chain_cases:
  "\<not> isnan num \<Longrightarrow> dge num (Num a) \<and> dle num (Num b) \<or> dlt num (Num a) \<or> dgt num (Num b)"
  by (cases num) (auto simp add: dge_def dle_def dgt_def deq_def)

lemma clamp_chain_nan:
  assumes "isnan num"
  shows "(if dge num (Num a) \<and> dle num (Num b) then num
          else if dlt num (Num a) then Num a
          else if dgt num (Num b) then Num b
          else old) = old"
  using assms by (cases num) (auto simp add: dge_def dle_def dgt_def deq_def)

text \<open>
  Claim C9, as amended. Let \<open>num\<close> be the parsed value of a manually entered intensity bound, lower
  or upper, and \<open>[min, max]\<close> the data range, \<open>min \<le> max\<close>. If \<open>num\<close> lies inside the range,
  it is stored as entered; if it lies below \<open>min\<close>, \<open>min\<close> is stored; if it lies above \<open>max\<close>,
  \<open>max\<close> is stored. Every \<open>num\<close> other than a not-a-number (an infinity included) is in one
  of these three cases and leaves the bound inside the data range. A not-a-number is in
  none of them, the comparisons of C being all false on it: that entry is dropped, and the
  bound stays as it was.
\<close>

theorem clamp_entry:
  assumes "range_min (ranges c) \<le> range_max (ranges c)"
  shows
    "(let num = dmul entered (magnitude c);
          rmin = Num (range_min (ranges c));
          rmax = Num (range_max (ranges c));
          lower' = lower (args (threshold_lower_changed zoomed entered c));
          upper' = upper (args (threshold_upper_changed zoomed entered c))
      in (dge num rmin \<and> dle num rmax \<longrightarrow> lower' = num \<and> upper' = num)
       \<and> (dlt num rmin \<longrightarrow> lower' = rmin \<and> upper' = rmin)
       \<and> (dgt num rmax \<longrightarrow> lower' = rmax \<and> upper' = rmax)
       \<and> (\<not> isnan num \<longrightarrow> dge lower' rmin \<and> dle lower' rmax
                            \<and> dge upper' rmin \<and> dle upper' rmax)
       \<and> (\<not> isnan num \<longrightarrow> dge num rmin \<and> dle num rmax \<or> dlt num rmin \<or> dgt num rmax)
       \<and> (isnan num \<longrightarrow> lower' = lower (args c) \<and> upper' = upper (args c)))"
proof -
  have l: "lower (args (threshold_lower_changed zoomed entered c)) =
    (if dge (dmul entered (magnitude c)) (Num (range_min (ranges c)))
        \<and> dle (dmul entered (magnitude c)) (Num (range_max (ranges c)))
     then dmul entered (magnitude c)
     else if dlt (dmul entered (magnitude c)) (Num (range_min (ranges c)))
     then Num (range_min (ranges c))
     else if dgt (dmul entered (magnitude c)) (Num (range_max (ranges c)))
     then Num (range_max (ranges c))
     else lower (args c))"
    by (simp add: lower_update Let_def)
  have u: "upper (args (threshold_upper_changed zoomed entered c)) =
    (if dge (dmul entered (magnitude c)) (Num (range_min (ranges c)))
        \<and> dle (dmul entered (magnitude c)) (Num (range_max (ranges c)))
     then dmul entered (magnitude c)
     else if dlt (dmul entered (magnitude c)) (Num (range_min (ranges c)))
     then Num (range_min (ranges c))
     else if dgt (dmul entered (magnitude c)) (Num (range_max (ranges c)))
     then Num (range_max (ranges c))
     else upper (args c))"
    by (simp add: upper_update Let_def)
  have three: "\<not> isnan (dmul entered (magnitude c)) \<longrightarrow>
      dge (dmul entered (magnitude c)) (Num (range_min (ranges c)))
        \<and> dle (dmul entered (magnitude c)) (Num (range_max (ranges c)))
      \<or> dlt (dmul entered (magnitude c)) (Num (range_min (ranges c)))
      \<or> dgt (dmul entered (magnitude c)) (Num (range_max (ranges c)))"
    using clamp_chain_cases by blast
  have dropped: "isnan (dmul entered (magnitude c)) \<longrightarrow>
      lower (args (threshold_lower_changed zoomed entered c)) = lower (args c)
      \<and> upper (args (threshold_upper_changed zoomed entered c)) = upper (args c)"
    unfolding l u by (simp add: clamp_chain_nan)
  from clamp_chain [OF assms l] clamp_chain [OF assms u] three dropped show ?thesis
    unfolding Let_def by blast
qed

theorem clamp_entry_witness:
  "lower (args (threshold_lower_changed (\<lambda>d col row w h. []) (Num 3)
      (example_session [] (0, 0, 0) (0, 0, 0)))) = Num 3
   \<and> lower (args (threshold_lower_changed (\<lambda>d col row w h. []) (Num (- 1))
      (example_session [] (0, 0, 0) (0, 0, 0)))) = Num 0
   \<and> upper (args (threshold_upper_changed (\<lambda>d col row w h. []) PosInf
      (example_session [] (0, 0, 0) (0, 0, 0)))) = Num 7
   \<and> dle (upper (args (threshold_upper_changed (\<lambda>d col row w h. []) PosInf
      (example_session [] (0, 0, 0) (0, 0, 0))))) (Num 7)
   \<and> dgt (dmul PosInf (magnitude (example_session [] (0, 0, 0) (0, 0, 0)))) (Num 7)
   \<and> upper (args (threshold_upper_changed (\<lambda>d col row w h. []) NaN
      (example_session [] (0, 0, 0) (0, 0, 0)))) = Num 0"
proof -
  let ?c = "example_session [] (0, 0, 0) (0, 0, 0)"
  let ?z = "\<lambda>(d::GwyDataField) (col::int) (row::int) (w::int) (h::int). [] :: real list"
  have r: "range_min (ranges ?c) \<le> range_max (ranges ?c)"
    by (simp add: example_session_def)
  have v: "range_min (ranges ?c) = 0" "range_max (ranges ?c) = 7" "magnitude ?c = Num 1"
    by (simp_all add: example_session_def)
  have n: "dmul (Num 3) (Num 1) = Num 3" "dmul (Num (- 1)) (Num 1) = Num (- 1)"
    "dmul PosInf (Num 1) = PosInf" "dmul NaN (Num 1) = NaN"
    by (simp_all add: dmul_def mk_num_def mk_inf_def)
  have inside: "dge (Num 3) (Num 0) \<and> dle (Num 3) (Num 7)"
    and below: "dlt (Num (- 1)) (Num 0)"
    and above: "dgt PosInf (Num 7)" and number: "\<not> isnan PosInf"
    and nan: "isnan NaN" and not_above: "\<not> dlt PosInf (Num 0)" "\<not> dge PosInf (Num 0) \<or> \<not> dle PosInf (Num 7)"
    by (simp_all add: dge_def dle_def dgt_def deq_def)
  have old: "upper (args ?c) = Num 0"
    by (simp add: example_session_def threshold_defaults_def)
  have 1: "lower (args (threshold_lower_changed ?z (Num 3) ?c)) = Num 3"
    using clamp_entry [OF r, of "Num 3" ?z] inside unfolding Let_def v n by simp
  have 2: "lower (args (threshold_lower_changed ?z (Num (- 1)) ?c)) = Num 0"
    using clamp_entry [OF r, of "Num (- 1)" ?z] below unfolding Let_def v n by simp
  have 3: "upper (args (threshold_upper_changed ?z PosInf ?c)) = Num 7"
    using clamp_entry [OF r, of PosInf ?z] above unfolding Let_def v n by simp
  have 4: "dle (upper (args (threshold_upper_changed ?z PosInf ?c))) (Num 7)"
    using clamp_entry [OF r, of PosInf ?z] number unfolding Let_def v n by simp
  have 5: "dgt (dmul PosInf (magnitude ?c)) (Num 7)"
    using clamp_entry [OF r, of PosInf ?z] number not_above unfolding Let_def v n by blast
  have 6: "upper (args (threshold_upper_changed ?z NaN ?c)) = Num 0"
    using clamp_entry [OF r, of NaN ?z] nan unfolding Let_def v n old by simp
  from 1 2 3 4 5 6 show ?thesis by simp
qed

text \<open>
  Claim C9, as the specification words it, fails at an entry that \<^verbatim>\<open>g_strtod\<close> reads as a
  not-a-number (the text \<^verbatim>\<open>nan\<close>): in a session with the data range \<open>[0, 7]\<close> and the bounds 3
  and 5, the entry is neither stored nor replaced by \<open>min\<close> or \<open>max\<close>. The bounds stay 3 and
  5: the entry is rejected.
\<close>

theorem clamp_entry_nan_counterexample:
  "isnan (dmul NaN (magnitude bounds_session))
   \<and> range_min (ranges bounds_session) = 0 \<and> range_max (ranges bounds_session) = 7
   \<and> lower (args bounds_session) = Num 3 \<and> upper (args bounds_session) = Num 5
   \<and> lower (args (threshold_lower_changed plain_zoom NaN bounds_session)) = Num 3
   \<and> upper (args (threshold_upper_changed plain_zoom NaN bounds_session)) = Num 5"
  by (simp add: lower_update upper_update bounds_session_def example_session_def dmul_def
        dge_def dle_def dgt_def deq_def)

subsection \<open>The scale update\<close>

text \<open>
  Claim C10. When the scale update runs on a selection of fewer than two points, both scale
  factors become 0 and both warnings become false, and nothing else changes; clearing the
  points empties the selection and then does exactly that.
\<close>

theorem scale_update_resets:
  "(length (selection c) < 2 \<longrightarrow>
      calibrate_update_scales c =
        c\<lparr>args := (args c)\<lparr>Xscale := Num 0, Yscale := Num 0, Xwarning := False, Ywarning := False\<rparr>\<rparr>)
   \<and> clear_points c =
        c\<lparr>selection := [],
          args := (args c)\<lparr>Xscale := Num 0, Yscale := Num 0, Xwarning := False, Ywarning := False\<rparr>\<rparr>"
  by (simp add: calibrate_update_scales_def clear_points_def gwy_selection_is_full_def)

theorem scale_update_resets_witness:
  "calibrate_update_scales (example_session [(1, 1)] (0, 0, 0) (0, 0, 0)) =
     (example_session [(1, 1)] (0, 0, 0) (0, 0, 0))
       \<lparr>args := (args (example_session [(1, 1)] (0, 0, 0) (0, 0, 0)))
          \<lparr>Xscale := Num 0, Yscale := Num 0, Xwarning := False, Ywarning := False\<rparr>\<rparr>"
proof -
  have "length (selection (example_session [(1, 1)] (0, 0, 0) (0, 0, 0))) < 2"
    by (simp add: example_session_def)
  with scale_update_resets [of "example_session [(1, 1)] (0, 0, 0) (0, 0, 0)"]
  show ?thesis by blast
qed

subsection \<open>The Calibration Applier\<close>













subsection \<open>The Spectral Transform\<close>

lemma modulus_loop_exact:
  "length datare = n \<Longrightarrow> length dataim = n \<Longrightarrow> length target = n \<Longrightarrow>
     modulus_loop n datare dataim target = Some (map2 hypot datare dataim)"
proof (induction n datare dataim target rule: modulus_loop.induct)
  case (1 datare dataim target)
  then show ?case by simp
next
  case (2 i re datare im dataim t target)
  then show ?case by simp
qed simp_all

lemma Min_add_const:
  assumes "xs \<noteq> []"
  shows "Min (set (map (\<lambda>v. v + m) xs)) = Min (set xs) + (m::real)"
proof -
  have "mono (\<lambda>v::real. v + m)"
    by (simp add: mono_def)
  then have "(\<lambda>v. v + m) (Min (set xs)) = Min ((\<lambda>v. v + m) ` set xs)"
    using assms by (intro mono_Min_commute) simp_all
  then show ?thesis by simp
qed

lemma Min_shifted:
  assumes "xs \<noteq> []"
  shows "Min (set (map (\<lambda>v. v + - Min (set xs)) xs)) = (0::real)"
  unfolding Min_add_const [OF assms] by simp

lemma fft_postprocess_shape:
  "xres (fft_postprocess humanize d) = xres d \<and> yres (fft_postprocess humanize d) = yres d
   \<and> data (fft_postprocess humanize d) =
       map (\<lambda>v. v + - Min (set (humanize (xres d) (yres d) (data d))))
         (humanize (xres d) (yres d) (data d))"
  by (simp add: fft_postprocess_def Let_def)

text \<open>
  Claim C5. For a well-formed image (\<open>xres, yres \<ge> 1\<close>, one sample for each pixel), a
  transform that fills the real and the imaginary part with one sample for each pixel, and a
  re-centring that keeps the number of samples, the Spectral Transform returns a spectrum
  of the resolution of the input. Its samples are those of the modulus, which is \<open>hypot\<close> of
  the two parts sample by sample, re-centred, each less the smallest of them; so the
  smallest sample of the spectrum is exactly 0. Its extents are the reciprocals of the
  sampling intervals of the input, and its offsets put the origin at the pixel in the
  middle.
\<close>

theorem spectral_transform:
  assumes "0 < xres d" and "0 < yres d"
    and "length (data d) = nat (xres d * yres d)"
    and "length (fst (fft d)) = nat (xres d * yres d)"
    and "length (snd (fft d)) = nat (xres d * yres d)"
    and "length (humanize (xres d) (yres d) (map2 hypot (fst (fft d)) (snd (fft d))))
           = nat (xres d * yres d)"
  shows "(\<exists>out. perform_fft fft humanize d = Some out
           \<and> xres out = xres d \<and> yres out = yres d
           \<and> length (data out) = nat (xres d * yres d)
           \<and> Min (set (data out)) = 0
           \<and> data out =
               map (\<lambda>v. v + - Min (set (humanize (xres d) (yres d)
                                           (map2 hypot (fst (fft d)) (snd (fft d))))))
                 (humanize (xres d) (yres d) (map2 hypot (fst (fft d)) (snd (fft d))))
           \<and> xreal out = 1 / (xreal d / real_of_int (xres d))
           \<and> yreal out = 1 / (yreal d / real_of_int (yres d))
           \<and> xoff out = - gwy_data_field_jtor out (real_of_int (xres out) / 2)
           \<and> yoff out = - gwy_data_field_itor out (real_of_int (yres out) / 2))
     \<and> set_dfield_modulus (d\<lparr>data := fst (fft d)\<rparr>) (d\<lparr>data := snd (fft d)\<rparr>) d
           = Some (d\<lparr>data := map2 hypot (fst (fft d)) (snd (fft d))\<rparr>)"
proof -
  have pos: "0 < xres d * yres d"
    using assms(1,2) by simp
  have m: "set_dfield_modulus (d\<lparr>data := fst (fft d)\<rparr>) (d\<lparr>data := snd (fft d)\<rparr>) d
           = Some (d\<lparr>data := map2 hypot (fst (fft d)) (snd (fft d))\<rparr>)"
    using pos assms(3-5) by (simp add: set_dfield_modulus_def modulus_loop_exact)
  let ?h = "humanize (xres d) (yres d) (map2 hypot (fst (fft d)) (snd (fft d)))"
  let ?out = "fft_postprocess humanize (d\<lparr>data := map2 hypot (fst (fft d)) (snd (fft d))\<rparr>)"
  have ne: "?h \<noteq> []"
    using assms(6) pos by auto
  have run: "perform_fft fft humanize d = Some ?out"
    by (simp add: perform_fft_def Let_def m)
  have shape: "xres ?out = xres d" "yres ?out = yres d"
    "data ?out = map (\<lambda>v. v + - Min (set ?h)) ?h"
    by (simp_all add: fft_postprocess_shape)
  have len: "length (data ?out) = nat (xres d * yres d)"
    unfolding shape(3) using assms(6) by simp
  have least: "Min (set (data ?out)) = 0"
    unfolding shape(3) by (rule Min_shifted [OF ne])
  have extents: "xreal ?out = 1 / (xreal d / real_of_int (xres d))"
    "yreal ?out = 1 / (yreal d / real_of_int (yres d))"
    by (simp_all add: fft_postprocess_def Let_def)
  have offsets: "xoff ?out = - gwy_data_field_jtor ?out (real_of_int (xres ?out) / 2)"
    "yoff ?out = - gwy_data_field_itor ?out (real_of_int (yres ?out) / 2)"
    by (simp_all add: fft_postprocess_def Let_def gwy_data_field_jtor_def
          gwy_data_field_itor_def)
  from run shape len least extents offsets
  have "\<exists>out. perform_fft fft humanize d = Some out
           \<and> xres out = xres d \<and> yres out = yres d
           \<and> length (data out) = nat (xres d * yres d)
           \<and> Min (set (data out)) = 0
           \<and> data out = map (\<lambda>v. v + - Min (set ?h)) ?h
           \<and> xreal out = 1 / (xreal d / real_of_int (xres d))
           \<and> yreal out = 1 / (yreal d / real_of_int (yres d))
           \<and> xoff out = - gwy_data_field_jtor out (real_of_int (xres out) / 2)
           \<and> yoff out = - gwy_data_field_itor out (real_of_int (yres out) / 2)"
    by (intro exI [of _ ?out] conjI)
  with m show ?thesis by (intro conjI)
qed

theorem spectral_transform_witness:
  "\<exists>out. perform_fft (\<lambda>d. (replicate 16 3, [4, 0, 4, 4, 4, 4, 4, 4, 4, 4, 4, 4, 4, 4, 4, 4]))
              (\<lambda>x y samples. rev samples) example_field = Some out
           \<and> xres out = 4 \<and> yres out = 4 \<and> length (data out) = 16 \<and> Min (set (data out)) = 0
           \<and> data out = [2, 2, 2, 2, 2, 2, 2, 2, 2, 2, 2, 2, 2, 2, 0, 2]
           \<and> xreal out = 1 \<and> yreal out = 1 \<and> xoff out = - 1 / 2 \<and> yoff out = - 1 / 2"
proof -
  let ?fft = "\<lambda>d::GwyDataField. (replicate 16 (3::real), [4, 0, 4, 4, 4, 4, 4, 4, 4, 4, 4, 4, 4, 4, 4, 4::real])"
  let ?hum = "\<lambda>(x::int) (y::int) (samples::real list). rev samples"
  let ?h = "?hum (xres example_field) (yres example_field)
              (map2 hypot (fst (?fft example_field)) (snd (?fft example_field)))"
  have "sqrt 25 = sqrt (5\<^sup>2)"
    by simp
  then have five: "hypot 3 4 = 5"
    unfolding hypot_def by (simp only: real_sqrt_abs) simp
  have three: "hypot 3 0 = 3"
    by (simp add: hypot_def)
  have sixteen: "replicate 16 (3::real) = [3, 3, 3, 3, 3, 3, 3, 3, 3, 3, 3, 3, 3, 3, 3, 3]"
    by (simp add: numeral_eq_Suc)
  have h: "?h = [5, 5, 5, 5, 5, 5, 5, 5, 5, 5, 5, 5, 5, 5, 3, 5]"
    by (simp add: sixteen five three)
  have least: "Min (set ?h) = 3"
    unfolding h by simp
  have "\<exists>out. perform_fft ?fft ?hum example_field = Some out
           \<and> xres out = xres example_field \<and> yres out = yres example_field
           \<and> length (data out) = nat (xres example_field * yres example_field)
           \<and> Min (set (data out)) = 0
           \<and> data out = map (\<lambda>v. v + - Min (set ?h)) ?h
           \<and> xreal out = 1 / (xreal example_field / real_of_int (xres example_field))
           \<and> yreal out = 1 / (yreal example_field / real_of_int (yres example_field))
           \<and> xoff out = - gwy_data_field_jtor out (real_of_int (xres out) / 2)
           \<and> yoff out = - gwy_data_field_itor out (real_of_int (yres out) / 2)"
    by (rule spectral_transform [THEN conjunct1]) (simp_all add: example_field_def)
  then obtain out where out: "perform_fft ?fft ?hum example_field = Some out"
    "xres out = xres example_field" "yres out = yres example_field"
    "length (data out) = nat (xres example_field * yres example_field)"
    "Min (set (data out)) = 0"
    "data out = map (\<lambda>v. v + - Min (set ?h)) ?h"
    "xreal out = 1 / (xreal example_field / real_of_int (xres example_field))"
    "yreal out = 1 / (yreal example_field / real_of_int (yres example_field))"
    "xoff out = - gwy_data_field_jtor out (real_of_int (xres out) / 2)"
    "yoff out = - gwy_data_field_itor out (real_of_int (yres out) / 2)"
    by blast
  have samples: "data out = [2, 2, 2, 2, 2, 2, 2, 2, 2, 2, 2, 2, 2, 2, 0, 2]"
    unfolding out(6) least unfolding h by simp
  have res: "xres out = 4" "yres out = 4" "length (data out) = 16"
    "xreal out = 1" "yreal out = 1"
    using out(2-4,7,8) by (simp_all add: example_field_def)
  have off: "xoff out = - 1 / 2" "yoff out = - 1 / 2"
    unfolding out(9,10) gwy_data_field_jtor_def gwy_data_field_itor_def res by simp_all
  from out(1,5) samples res off show ?thesis
    by blast
qed

subsection \<open>The Peak Locator\<close>

lemma get_val_inside:
  "gwy_data_field_inside d i j \<Longrightarrow> gwy_data_field_get_val d i j = Some (sample_at d (i, j))"
  by (simp add: gwy_data_field_get_val_def sample_at_def)













lemma example_pixel:
  "disp_data (example_session sel p0 p1) = example_field"
  "rpx (example_session sel p0 p1) = 3"
  "c_trunc (gwy_data_field_rtoj example_field (5 / 2)) = 2"
  "c_trunc (gwy_data_field_rtoi example_field (23 / 10)) = 2"
  by (simp_all add: example_session_def example_field_def c_trunc_def
      gwy_data_field_rtoj_def gwy_data_field_rtoi_def)




subsection \<open>The Peak Locator with radius 0\<close>

lemma c_trunc_of_int: "c_trunc (real_of_int n) = n"
  by (simp add: c_trunc_def)

lemma peak_pixel_radius_zero:
  assumes "gwy_data_field_inside d col row"
  shows "peak_pixel d col row 0 = Some (col, row, sample_at d (col, row))"
  using assms
  by (simp add: peak_pixel_def get_val_inside peak_scan_def Let_def)

lemma peak_find_radius_zero:
  assumes "rpx c = 0"
    and "gwy_data_field_inside (disp_data c)
           (c_trunc (gwy_data_field_rtoj (disp_data c) (fst point)))
           (c_trunc (gwy_data_field_rtoi (disp_data c) (snd point)))"
  shows "peak_find c point idx =
           Some (c\<lparr>p := (p c)(idx :=
             (gwy_data_field_jtor (disp_data c)
                (real_of_int (c_trunc (gwy_data_field_rtoj (disp_data c) (fst point))))
                + xoff (disp_data c),
              gwy_data_field_itor (disp_data c)
                (real_of_int (c_trunc (gwy_data_field_rtoi (disp_data c) (snd point))))
                + yoff (disp_data c),
              sample_at (disp_data c)
                (c_trunc (gwy_data_field_rtoj (disp_data c) (fst point)),
                 c_trunc (gwy_data_field_rtoi (disp_data c) (snd point)))))\<rparr>)"
  using assms by (simp add: peak_find_def Let_def peak_pixel_radius_zero)

text \<open>
  Claim C7, as amended. Let the pixel of a point be the one that the conversion to \<^verbatim>\<open>gint\<close> gives
  (the pixel coordinates with their fractional parts discarded, not rounded), and let it
  lie inside the displayed image. With radius 0 the Peak Locator returns the sample of the
  pixel of the input point, unchanged, at the physical position of that pixel, and leaves
  the selection alone. The peak triple depends on the pixel only, and refinement is
  idempotent in this sense: refining once more, from the same point or from any point of
  the same pixel, returns the same session, so the same peak triple.
\<close>

theorem peak_locator_radius_zero:
  assumes "rpx c = 0"
    and "gwy_data_field_inside (disp_data c)
           (c_trunc (gwy_data_field_rtoj (disp_data c) (fst point)))
           (c_trunc (gwy_data_field_rtoi (disp_data c) (snd point)))"
  shows
    "(let d = disp_data c;
          col = c_trunc (gwy_data_field_rtoj d (fst point));
          row = c_trunc (gwy_data_field_rtoi d (snd point));
          c' = c\<lparr>p := (p c)(idx :=
                 (gwy_data_field_jtor d (real_of_int col) + xoff d,
                  gwy_data_field_itor d (real_of_int row) + yoff d,
                  data d ! nat (col + xres d * row)))\<rparr>
      in peak_find c point idx = Some c'
       \<and> gwy_data_field_get_val d col row = Some (snd (snd (p c' idx)))
       \<and> selection c' = selection c
       \<and> peak_find c' point idx = Some c'
       \<and> (\<forall>q. c_trunc (gwy_data_field_rtoj d (fst q)) = col
              \<and> c_trunc (gwy_data_field_rtoi d (snd q)) = row \<longrightarrow>
              peak_find c q idx = Some c' \<and> peak_find c' q idx = Some c'))"
proof -
  define d where "d = disp_data c"
  define col where "col = c_trunc (gwy_data_field_rtoj d (fst point))"
  define row where "row = c_trunc (gwy_data_field_rtoi d (snd point))"
  define c' where "c' = c\<lparr>p := (p c)(idx :=
                 (gwy_data_field_jtor d (real_of_int col) + xoff d,
                  gwy_data_field_itor d (real_of_int row) + yoff d,
                  data d ! nat (col + xres d * row)))\<rparr>"
  have inside: "gwy_data_field_inside d col row"
    using assms(2) by (simp add: d_def col_def row_def)
  have same: "disp_data c' = d" "rpx c' = 0"
    using assms(1) by (simp_all add: c'_def d_def)
  have first: "peak_find c q idx = Some c'"
    if "c_trunc (gwy_data_field_rtoj d (fst q)) = col"
      and "c_trunc (gwy_data_field_rtoi d (snd q)) = row" for q
    using peak_find_radius_zero [of c q idx] assms(1) inside that
    by (simp add: c'_def d_def [symmetric] sample_at_def)
  have again: "peak_find c' q idx = Some c'"
    if "c_trunc (gwy_data_field_rtoj d (fst q)) = col"
      and "c_trunc (gwy_data_field_rtoi d (snd q)) = row" for q
  proof -
    have "peak_find c' q idx
          = Some (c'\<lparr>p := (p c')(idx :=
                 (gwy_data_field_jtor d (real_of_int col) + xoff d,
                  gwy_data_field_itor d (real_of_int row) + yoff d,
                  sample_at d (col, row)))\<rparr>)"
      using peak_find_radius_zero [of c' q idx] inside that
      by (simp add: same)
    also have "\<dots> = Some c'"
      by (simp add: c'_def sample_at_def)
    finally show ?thesis .
  qed
  have 1: "peak_find c point idx = Some c'"
    by (rule first) (simp_all add: col_def row_def)
  have 2: "gwy_data_field_get_val d col row = Some (snd (snd (p c' idx)))"
    using inside by (simp add: c'_def gwy_data_field_get_val_def)
  have 3: "selection c' = selection c"
    by (simp add: c'_def)
  have 4: "peak_find c' point idx = Some c'"
    by (rule again) (simp_all add: col_def row_def)
  from 1 2 3 4 first again show ?thesis
    unfolding Let_def d_def [symmetric] col_def [symmetric] row_def [symmetric]
      c'_def [symmetric]
    by blast
qed

theorem peak_locator_radius_zero_witness:
  "\<exists>c'. peak_find ((example_session [(5 / 2, 23 / 10)] (0, 0, 0) (0, 0, 0))\<lparr>rpx := 0\<rparr>)
            (5 / 2, 23 / 10) 0 = Some c'
        \<and> p c' 0 = (0, 0, 5)
        \<and> selection c' = [(5 / 2, 23 / 10)]
        \<and> peak_find c' (5 / 2, 23 / 10) 0 = Some c'
        \<and> peak_find c' (2, 2) 0 = Some c'"
proof -
  let ?c = "(example_session [(5 / 2, 23 / 10)] (0, 0, 0) (0, 0, 0))\<lparr>rpx := 0\<rparr>"
  let ?c1 = "?c\<lparr>p := (p ?c)(0 :=
                 (gwy_data_field_jtor example_field (real_of_int 2) + xoff example_field,
                  gwy_data_field_itor example_field (real_of_int 2) + yoff example_field,
                  data example_field ! nat (2 + xres example_field * 2)))\<rparr>"
  have d: "disp_data ?c = example_field"
    by (simp add: example_session_def)
  have r: "rpx ?c = 0"
    by simp
  have inside: "gwy_data_field_inside (disp_data ?c)
             (c_trunc (gwy_data_field_rtoj (disp_data ?c) (fst (5 / 2 :: real, 23 / 10 :: real))))
             (c_trunc (gwy_data_field_rtoi (disp_data ?c) (snd (5 / 2 :: real, 23 / 10 :: real))))"
    unfolding d by (simp add: example_pixel) (simp add: gwy_data_field_inside_def example_field_def)
  have v: "gwy_data_field_jtor example_field 2 = 2" "xoff example_field = - 2"
    "gwy_data_field_itor example_field 2 = 2" "yoff example_field = - 2"
    "data example_field ! nat (2 + xres example_field * 2) = 5"
    by (simp_all add: gwy_data_field_jtor_def gwy_data_field_itor_def example_field_def)
  have q: "c_trunc (gwy_data_field_rtoj example_field (fst (2 :: real, 2 :: real))) = 2
         \<and> c_trunc (gwy_data_field_rtoi example_field (snd (2 :: real, 2 :: real))) = 2"
    by (simp add: example_field_def c_trunc_def gwy_data_field_rtoj_def
          gwy_data_field_rtoi_def)
  from peak_locator_radius_zero [OF r inside, of 0]
  have all: "peak_find ?c (5 / 2, 23 / 10) 0 = Some ?c1
      \<and> peak_find ?c1 (5 / 2, 23 / 10) 0 = Some ?c1
      \<and> (\<forall>q. c_trunc (gwy_data_field_rtoj example_field (fst q)) = 2
              \<and> c_trunc (gwy_data_field_rtoi example_field (snd q)) = 2 \<longrightarrow>
              peak_find ?c q 0 = Some ?c1 \<and> peak_find ?c1 q 0 = Some ?c1)"
    unfolding Let_def d by (simp add: example_pixel)
  then have "peak_find ?c1 (2, 2) 0 = Some ?c1"
    using q by blast
  moreover have "p ?c1 0 = (0, 0, 5)" "selection ?c1 = [(5 / 2, 23 / 10)]"
    by (simp_all add: v) (simp add: example_session_def)
  ultimately show ?thesis
    using all by (intro exI [of _ ?c1]) simp
qed

text \<open>
  Claim C7, as the specification words it, fails on the pixel: the program does not round.
  The point \<open>(11/4, 11/4)\<close> of the example spectrum (one pixel is one unit wide) rounds to the
  pixel \<open>(3, 3)\<close>, whose sample is 0; the program, with radius 0, returns the sample 5 of the
  pixel \<open>(2, 2)\<close>, at the position \<open>(0, 0)\<close> of that pixel.
\<close>

theorem peak_locator_rounded_pixel_counterexample:
  "spec_rounded_pixel example_field (11 / 4, 11 / 4) = (3, 3)
   \<and> sample_at example_field (3, 3) = 0
   \<and> map_option (\<lambda>c'. p c' 0)
       (peak_find ((example_session [(11 / 4, 11 / 4)] (0, 0, 0) (0, 0, 0))\<lparr>rpx := 0\<rparr>)
          (11 / 4, 11 / 4) 0)
     = Some (0, 0, 5)"
proof -
  let ?c = "(example_session [(11 / 4, 11 / 4)] (0, 0, 0) (0, 0, 0))\<lparr>rpx := 0\<rparr>"
  have d: "disp_data ?c = example_field" and r: "rpx ?c = 0"
    by (simp_all add: example_session_def)
  have t: "c_trunc (gwy_data_field_rtoj example_field (11 / 4)) = 2"
    "c_trunc (gwy_data_field_rtoi example_field (11 / 4)) = 2"
    by (simp_all add: example_field_def c_trunc_def gwy_data_field_rtoj_def
          gwy_data_field_rtoi_def)
  have inside: "gwy_data_field_inside (disp_data ?c)
             (c_trunc (gwy_data_field_rtoj (disp_data ?c) (fst (11 / 4 :: real, 11 / 4 :: real))))
             (c_trunc (gwy_data_field_rtoi (disp_data ?c) (snd (11 / 4 :: real, 11 / 4 :: real))))"
    unfolding d by (simp add: t) (simp add: gwy_data_field_inside_def example_field_def)
  have v: "gwy_data_field_jtor example_field 2 + xoff example_field = 0"
    "gwy_data_field_itor example_field 2 + yoff example_field = 0"
    "sample_at example_field (2, 2) = 5" "sample_at example_field (3, 3) = 0"
    by (simp_all add: gwy_data_field_jtor_def gwy_data_field_itor_def sample_at_def
          example_field_def)
  have "map_option (\<lambda>c'. p c' 0) (peak_find ?c (11 / 4, 11 / 4) 0) = Some (0, 0, 5)"
    unfolding peak_find_radius_zero [OF r inside] d by (simp add: t v)
  moreover have "spec_rounded_pixel example_field (11 / 4, 11 / 4) = (3, 3)"
    by (simp add: spec_rounded_pixel_def example_field_def gwy_data_field_rtoj_def
          gwy_data_field_rtoi_def)
  ultimately show ?thesis
    using v(4) by simp
qed

subsection \<open>Zoom changes\<close>













end
